theory Spec2Isabelle
  imports
    Main
    "HOL-Library.Word"
    "HOL-Library.Char_ord"
    "HOL-Library.List_Lexorder"
    "HOL-Library.AList"
    "HOL-Library.Multiset"
begin

section \<open>The asset ledger chaincode\<close>

text \<open>
  A shallow embedding of \<^verbatim>\<open>asset-transfer-basic/chaincode-go/chaincode/smartcontract.go\<close>
  and of the second variant of the same package, which adds \<^verbatim>\<open>TransferGemToDistrib\<close>
  (the operation the specification calls \<^verbatim>\<open>ConvertGemToExp\<close>).

  Go's \<^verbatim>\<open>int\<close> is a 64-bit two's complement integer on every platform the chaincode runs
  on: \<open>Amount\<close> is a \<open>64 word\<close>, \<open>+\<close> and \<open>-\<close> wrap around, \<^verbatim>\<open><\<close> is the signed
  comparison and \<open>sint\<close> reads the balance.
\<close>

subsection \<open>Data\<close>

record Asset =
  ID :: string
  Owner :: string
  Amount :: "64 word"

text \<open>
  The errors of the chaincode are Go error values built by \<^verbatim>\<open>fmt.Errorf\<close>; the model keeps
  their kind:
  \<^item> \<open>CompositeKeyError\<close>: \<^verbatim>\<open>CreateCompositeKey\<close> refused an attribute;
  \<^item> \<open>StoreError\<close>: \<^verbatim>\<open>GetState\<close>, \<^verbatim>\<open>PutState\<close> or the range query failed;
  \<^item> \<open>SerializationError\<close>: \<^verbatim>\<open>json.Marshal\<close> or \<^verbatim>\<open>json.Unmarshal\<close> failed;
  \<^item> \<open>AlreadyExists\<close>: "the asset %s already exists";
  \<^item> \<open>NotFound\<close>: "the asset %s does not exist", "user does not own any Gem";
  \<^item> \<open>InsufficientBalance\<close>: "the asset %s does not have enough amount to transfer",
    "insufficient Gem balance";
  \<^item> \<open>InvalidArgument\<close>: "gemAmount must be positive".
\<close>

datatype error =
    CompositeKeyError
  | StoreError
  | SerializationError
  | AlreadyExists
  | NotFound
  | InsufficientBalance
  | InvalidArgument

subsection \<open>The platform: serialisation and the chaincode stub\<close>

text \<open>
  Modelled from the spec: the transactional key-value store of its section 6 (get, put,
  range scan inside one all-or-nothing unit of work) and the key derivation of its section
  4.1. The chaincode consumes both from the Fabric shim, which is not part of the
  repository; the definitions below follow the shim's documented behaviour.

  The store itself always answers: a read, a write to a key that is not empty and a
  range query do not fail, so \<open>StoreError\<close> arises from the empty key only. The error
  branches of the chaincode are kept where the stub can take them.

  A stored document is the JSON encoding of an \<open>Asset\<close>. \<^verbatim>\<open>json.Unmarshal\<close> returns the
  record that \<^verbatim>\<open>json.Marshal\<close> was given, so a document is identified with the record it
  encodes; the world state holds only documents this chaincode wrote.
\<close>

datatype bytes = JSON Asset

definition json_Marshal :: "Asset \<Rightarrow> error + bytes" where
  "json_Marshal asset = Inr (JSON asset)"

fun json_Unmarshal :: "bytes \<Rightarrow> error + Asset" where
  "json_Unmarshal (JSON asset) = Inr asset"

text \<open>
  Keys are byte strings. \<^verbatim>\<open>CreateCompositeKey\<close> joins the object type and the attributes,
  each followed by U+0000, behind the composite-key namespace U+0000. It refuses an
  object type or attribute that is not valid UTF-8 or that contains U+0000 or U+10FFFF.
\<close>

definition minUnicodeRuneValue :: char where
  "minUnicodeRuneValue = CHR 0x00"

definition maxUnicodeRuneValue :: string where
  "maxUnicodeRuneValue = [CHR 0xF4, CHR 0x8F, CHR 0xBF, CHR 0xBF]"

definition compositeKeyNamespace :: string where
  "compositeKeyNamespace = [CHR 0x00]"

definition continuation :: "nat \<Rightarrow> bool" where
  "continuation b \<longleftrightarrow> 0x80 \<le> b \<and> b \<le> 0xBF"

text \<open>Well-formed UTF-8 byte sequences, as \<^verbatim>\<open>utf8.ValidString\<close> accepts them.\<close>

fun utf8_valid :: "nat list \<Rightarrow> bool" where
  "utf8_valid [] = True"
| "utf8_valid (b # bs) =
     (if b < 0x80 then utf8_valid bs
      else if 0xC2 \<le> b \<and> b \<le> 0xDF then
        (case bs of
           c1 # r \<Rightarrow> continuation c1 \<and> utf8_valid r
         | _ \<Rightarrow> False)
      else if 0xE0 \<le> b \<and> b \<le> 0xEF then
        (case bs of
           c1 # c2 # r \<Rightarrow>
             (if b = 0xE0 then 0xA0 \<le> c1 \<and> c1 \<le> 0xBF
              else if b = 0xED then 0x80 \<le> c1 \<and> c1 \<le> 0x9F
              else continuation c1)
             \<and> continuation c2 \<and> utf8_valid r
         | _ \<Rightarrow> False)
      else if 0xF0 \<le> b \<and> b \<le> 0xF4 then
        (case bs of
           c1 # c2 # c3 # r \<Rightarrow>
             (if b = 0xF0 then 0x90 \<le> c1 \<and> c1 \<le> 0xBF
              else if b = 0xF4 then 0x80 \<le> c1 \<and> c1 \<le> 0x8F
              else continuation c1)
             \<and> continuation c2 \<and> continuation c3 \<and> utf8_valid r
         | _ \<Rightarrow> False)
      else False)"

fun has_max_rune :: "string \<Rightarrow> bool" where
  "has_max_rune [] = False"
| "has_max_rune (c # cs) =
     (take 4 (c # cs) = maxUnicodeRuneValue \<or> has_max_rune cs)"

definition validateCompositeKeyAttribute :: "string \<Rightarrow> bool" where
  "validateCompositeKeyAttribute str \<longleftrightarrow>
     utf8_valid (map of_char str) \<and> minUnicodeRuneValue \<notin> set str \<and> \<not> has_max_rune str"

definition CreateCompositeKey :: "string \<Rightarrow> string list \<Rightarrow> error + string" where
  "CreateCompositeKey objectType attributes =
     (if validateCompositeKeyAttribute objectType \<and> list_all validateCompositeKeyAttribute attributes
      then Inr (compositeKeyNamespace @ objectType @ [minUnicodeRuneValue]
                @ concat (map (\<lambda>att. att @ [minUnicodeRuneValue]) attributes))
      else Inl CompositeKeyError)"

text \<open>
  One invocation runs against a stub: the committed world state, which \<^verbatim>\<open>GetState\<close> and
  the range query read, and the write set, to which \<^verbatim>\<open>PutState\<close> appends. A read does not
  see the writes of its own transaction. \<^verbatim>\<open>PutState\<close> refuses the empty key.
\<close>

type_synonym world = "(string \<times> bytes) list"

record stub =
  committed :: world
  writes :: "(string \<times> bytes) list"

definition GetState :: "stub \<Rightarrow> string \<Rightarrow> error + bytes option" where
  "GetState st key = Inr (map_of (committed st) key)"

definition PutState :: "stub \<Rightarrow> string \<Rightarrow> bytes \<Rightarrow> error + stub" where
  "PutState st key val =
     (if key = [] then Inl StoreError
      else Inr (st\<lparr>writes := writes st @ [(key, val)]\<rparr>))"

text \<open>
  The range query of a partial composite key covers the keys from the partial key up to,
  and excluding, the partial key followed by U+10FFFF, in the byte order of the keys.
\<close>

definition GetStateByPartialCompositeKey ::
  "stub \<Rightarrow> string \<Rightarrow> string list \<Rightarrow> error + (string \<times> bytes) list" where
  "GetStateByPartialCompositeKey st objectType attributes =
     (case CreateCompositeKey objectType attributes of
        Inl e \<Rightarrow> Inl e
      | Inr startKey \<Rightarrow>
          Inr (sort_key fst
                 (filter (\<lambda>kv. startKey \<le> fst kv \<and> fst kv < startKey @ maxUnicodeRuneValue)
                    (committed st))))"

text \<open>
  A transaction starts with an empty write set. When the invocation returns an error
  nothing is committed; otherwise the writes are applied in the order they were made.
\<close>

definition begin_tx :: "world \<Rightarrow> stub" where
  "begin_tx w = \<lparr>committed = w, writes = []\<rparr>"

definition commit :: "stub \<Rightarrow> world" where
  "commit st = foldl (\<lambda>w kv. AList.update (fst kv) (snd kv) w) (committed st) (writes st)"

definition submit :: "(stub \<Rightarrow> stub \<times> (error + 'a)) \<Rightarrow> world \<Rightarrow> world \<times> (error + 'a)" where
  "submit f w =
     (case f (begin_tx w) of
        (st, Inl e) \<Rightarrow> (w, Inl e)
      | (st, Inr r) \<Rightarrow> (commit st, Inr r))"

subsection \<open>smartcontract.go\<close>

definition AssetExists :: "stub \<Rightarrow> string \<Rightarrow> string \<Rightarrow> error + bool" where
  "AssetExists st id' owner =
     (case CreateCompositeKey ''Asset'' [id', owner] of
        Inl e \<Rightarrow> Inl CompositeKeyError
      | Inr compositeKey \<Rightarrow>
          (case GetState st compositeKey of
             Inl e \<Rightarrow> Inl StoreError
           | Inr assetJSON \<Rightarrow> Inr (assetJSON \<noteq> None)))"

definition ReadAsset :: "stub \<Rightarrow> string \<Rightarrow> string \<Rightarrow> error + Asset" where
  "ReadAsset st id' owner =
     (case CreateCompositeKey ''Asset'' [id', owner] of
        Inl e \<Rightarrow> Inl CompositeKeyError
      | Inr compositeKey \<Rightarrow>
          (case GetState st compositeKey of
             Inl e \<Rightarrow> Inl StoreError
           | Inr None \<Rightarrow> Inl NotFound
           | Inr (Some assetJSON) \<Rightarrow> json_Unmarshal assetJSON))"

definition initial_assets :: "Asset list" where
  "initial_assets =
     [\<lparr>ID = ''exp'', Owner = ''distrib'', Amount = 5\<rparr>,
      \<lparr>ID = ''gem'', Owner = ''seo'', Amount = 3000\<rparr>,
      \<lparr>ID = ''gem'', Owner = ''team1'', Amount = 3\<rparr>,
      \<lparr>ID = ''exp'', Owner = ''team1'', Amount = 6\<rparr>,
      \<lparr>ID = ''gem'', Owner = ''team2'', Amount = 15\<rparr>,
      \<lparr>ID = ''exp'', Owner = ''team2'', Amount = 30\<rparr>]"

text \<open>The loop of \<^verbatim>\<open>InitLedger\<close> over its literal assets.\<close>

fun InitLedger_loop :: "stub \<Rightarrow> Asset list \<Rightarrow> stub \<times> (error + unit)" where
  "InitLedger_loop st [] = (st, Inr ())"
| "InitLedger_loop st (asset # assets) =
     (case json_Marshal asset of
        Inl e \<Rightarrow> (st, Inl e)
      | Inr assetJSON \<Rightarrow>
          (case CreateCompositeKey ''Asset'' [ID asset, Owner asset] of
             Inl e \<Rightarrow> (st, Inl e)
           | Inr compositeKey \<Rightarrow>
               (case PutState st compositeKey assetJSON of
                  Inl e \<Rightarrow> (st, Inl e)
                | Inr st' \<Rightarrow> InitLedger_loop st' assets)))"

definition InitLedger :: "stub \<Rightarrow> stub \<times> (error + unit)" where
  "InitLedger st = InitLedger_loop st initial_assets"

definition CreateAsset :: "stub \<Rightarrow> string \<Rightarrow> 64 word \<Rightarrow> string \<Rightarrow> stub \<times> (error + unit)" where
  "CreateAsset st id' amount owner =
     (case CreateCompositeKey ''Asset'' [id', owner] of
        Inl e \<Rightarrow> (st, Inl CompositeKeyError)
      | Inr compositeKey \<Rightarrow>
          (case AssetExists st id' owner of
             Inl e \<Rightarrow> (st, Inl e)
           | Inr exists \<Rightarrow>
               if exists then (st, Inl AlreadyExists)
               else
                 (case json_Marshal \<lparr>ID = id', Owner = owner, Amount = amount\<rparr> of
                    Inl e \<Rightarrow> (st, Inl e)
                  | Inr assetJSON \<Rightarrow>
                      (case PutState st compositeKey assetJSON of
                         Inl e \<Rightarrow> (st, Inl e)
                       | Inr st' \<Rightarrow> (st', Inr ())))))"

text \<open>
  \<^verbatim>\<open>UpdateAsset\<close> checks existence through \<^verbatim>\<open>AssetExists\<close>, at the composite key, and
  then calls \<^verbatim>\<open>PutState(id, assetJSON)\<close>: the write goes to the key \<open>id\<close> itself.
\<close>

definition UpdateAsset :: "stub \<Rightarrow> string \<Rightarrow> string \<Rightarrow> 64 word \<Rightarrow> stub \<times> (error + unit)" where
  "UpdateAsset st id' owner amount =
     (case AssetExists st id' owner of
        Inl e \<Rightarrow> (st, Inl e)
      | Inr exists \<Rightarrow>
          if \<not> exists then (st, Inl NotFound)
          else
            (case json_Marshal \<lparr>ID = id', Owner = owner, Amount = amount\<rparr> of
               Inl e \<Rightarrow> (st, Inl e)
             | Inr assetJSON \<Rightarrow>
                 (case PutState st id' assetJSON of
                    Inl e \<Rightarrow> (st, Inl e)
                  | Inr st' \<Rightarrow> (st', Inr ()))))"

text \<open>
  \<^verbatim>\<open>TransferAsset\<close> reads the source record only. It writes a new record holding
  \<open>amount\<close> at the key of the new owner, then the debited source record at the key of
  the old owner.
\<close>

definition TransferAsset ::
  "stub \<Rightarrow> string \<Rightarrow> string \<Rightarrow> string \<Rightarrow> 64 word \<Rightarrow> stub \<times> (error + string)" where
  "TransferAsset st id' owner newOwner amount =
     (case ReadAsset st id' owner of
        Inl e \<Rightarrow> (st, Inl e)
      | Inr asset0 \<Rightarrow>
          if Amount asset0 <s amount then (st, Inl InsufficientBalance)
          else
            let oldOwner = Owner asset0;
                asset = asset0\<lparr>Amount := Amount asset0 - amount\<rparr>;
                newAsset = \<lparr>ID = id', Owner = newOwner, Amount = amount\<rparr>
            in
              (case json_Marshal newAsset of
                 Inl e \<Rightarrow> (st, Inl e)
               | Inr newAssetJSON \<Rightarrow>
                   (case CreateCompositeKey ''Asset'' [id', newOwner] of
                      Inl e \<Rightarrow> (st, Inl CompositeKeyError)
                    | Inr newCompositeKey \<Rightarrow>
                        (case PutState st newCompositeKey newAssetJSON of
                           Inl e \<Rightarrow> (st, Inl e)
                         | Inr st1 \<Rightarrow>
                             (case json_Marshal asset of
                                Inl e \<Rightarrow> (st1, Inl e)
                              | Inr assetJSON \<Rightarrow>
                                  (case CreateCompositeKey ''Asset'' [id', owner] of
                                     Inl e \<Rightarrow> (st1, Inl CompositeKeyError)
                                   | Inr oldCompositeKey \<Rightarrow>
                                       (case PutState st1 oldCompositeKey assetJSON of
                                          Inl e \<Rightarrow> (st1, Inl e)
                                        | Inr st2 \<Rightarrow> (st2, Inr oldOwner))))))))"

text \<open>The loop of \<^verbatim>\<open>GetAllAssets\<close> over the iterator, appending each decoded record.\<close>

fun GetAllAssets_loop :: "(string \<times> bytes) list \<Rightarrow> Asset list \<Rightarrow> error + Asset list" where
  "GetAllAssets_loop [] assets = Inr assets"
| "GetAllAssets_loop (queryResponse # resultsIterator) assets =
     (case json_Unmarshal (snd queryResponse) of
        Inl e \<Rightarrow> Inl SerializationError
      | Inr asset \<Rightarrow> GetAllAssets_loop resultsIterator (assets @ [asset]))"

definition GetAllAssets :: "stub \<Rightarrow> error + Asset list" where
  "GetAllAssets st =
     (case GetStateByPartialCompositeKey st ''Asset'' [] of
        Inl e \<Rightarrow> Inl StoreError
      | Inr resultsIterator \<Rightarrow> GetAllAssets_loop resultsIterator [])"

subsection \<open>The revision of the package with TransferGemToDistrib\<close>

text \<open>
  The other revision of \<^verbatim>\<open>smartcontract.go\<close> in the repository has the same \<open>Asset\<close>,
  \<^verbatim>\<open>CreateAsset\<close>, \<^verbatim>\<open>ReadAsset\<close> and \<^verbatim>\<open>GetAllAssets\<close>. Its \<^verbatim>\<open>AssetExists\<close> takes the key
  itself, its \<^verbatim>\<open>UpdateAsset\<close> reads and writes the key \<open>id\<close>, and it adds
  \<^verbatim>\<open>TransferGemToDistrib\<close>, whose collector is the owner \<^verbatim>\<open>"Distrib"\<close>.
\<close>

definition AssetExists2 :: "stub \<Rightarrow> string \<Rightarrow> error + bool" where
  "AssetExists2 st id' =
     (case GetState st id' of
        Inl e \<Rightarrow> Inl StoreError
      | Inr assetJSON \<Rightarrow> Inr (assetJSON \<noteq> None))"

definition UpdateAsset2 :: "stub \<Rightarrow> string \<Rightarrow> string \<Rightarrow> 64 word \<Rightarrow> stub \<times> (error + unit)" where
  "UpdateAsset2 st id' owner amount =
     (case AssetExists2 st id' of
        Inl e \<Rightarrow> (st, Inl e)
      | Inr exists \<Rightarrow>
          if \<not> exists then (st, Inl NotFound)
          else
            (case json_Marshal \<lparr>ID = id', Owner = owner, Amount = amount\<rparr> of
               Inl e \<Rightarrow> (st, Inl e)
             | Inr assetJSON \<Rightarrow>
                 (case PutState st id' assetJSON of
                    Inl e \<Rightarrow> (st, Inl e)
                  | Inr st' \<Rightarrow> (st', Inr ()))))"

text \<open>
  \<^verbatim>\<open>TransferGemToDistrib\<close> reads the user's gem record and then the collector's, which
  defaults to a zero balance when \<^verbatim>\<open>GetState\<close> returns nothing. Only then does it write
  the debited user record and the credited collector record, in that order. Last it
  reads the user's exp record, with the same default, and writes it back credited.
\<close>

definition TransferGemToDistrib :: "stub \<Rightarrow> string \<Rightarrow> 64 word \<Rightarrow> stub \<times> (error + unit)" where
  "TransferGemToDistrib st user gemAmount =
     (if gemAmount \<le>s 0 then (st, Inl InvalidArgument)
      else
     (case CreateCompositeKey ''Asset'' [''gem'', user] of
        Inl e \<Rightarrow> (st, Inl CompositeKeyError)
      | Inr userGemKey \<Rightarrow>
     (case GetState st userGemKey of
        Inl e \<Rightarrow> (st, Inl StoreError)
      | Inr None \<Rightarrow> (st, Inl NotFound)
      | Inr (Some userGemJSON) \<Rightarrow>
     (case json_Unmarshal userGemJSON of
        Inl e \<Rightarrow> (st, Inl SerializationError)
      | Inr userGem0 \<Rightarrow>
          if Amount userGem0 <s gemAmount then (st, Inl InsufficientBalance)
          else
     (case CreateCompositeKey ''Asset'' [''gem'', ''Distrib''] of
        Inl e \<Rightarrow> (st, Inl CompositeKeyError)
      | Inr distribGemKey \<Rightarrow>
     (case GetState st distribGemKey of
        Inl e \<Rightarrow> (st, Inl StoreError)
      | Inr distribGemJSON \<Rightarrow>
     (case (case distribGemJSON of
              Some j \<Rightarrow> json_Unmarshal j
            | None \<Rightarrow> Inr \<lparr>ID = ''gem'', Owner = ''Distrib'', Amount = 0\<rparr>) of
        Inl e \<Rightarrow> (st, Inl SerializationError)
      | Inr distribGem0 \<Rightarrow>
          let userGem = userGem0\<lparr>Amount := Amount userGem0 - gemAmount\<rparr>;
              distribGem = distribGem0\<lparr>Amount := Amount distribGem0 + gemAmount\<rparr>
          in
     (case json_Marshal userGem of
        Inl e \<Rightarrow> (st, Inl SerializationError)
      | Inr userGemJSON' \<Rightarrow>
     (case PutState st userGemKey userGemJSON' of
        Inl e \<Rightarrow> (st, Inl StoreError)
      | Inr st1 \<Rightarrow>
     (case json_Marshal distribGem of
        Inl e \<Rightarrow> (st1, Inl SerializationError)
      | Inr distribGemJSON' \<Rightarrow>
     (case PutState st1 distribGemKey distribGemJSON' of
        Inl e \<Rightarrow> (st1, Inl StoreError)
      | Inr st2 \<Rightarrow>
     (case CreateCompositeKey ''Asset'' [''exp'', user] of
        Inl e \<Rightarrow> (st2, Inl CompositeKeyError)
      | Inr userExpKey \<Rightarrow>
     (case GetState st2 userExpKey of
        Inl e \<Rightarrow> (st2, Inl StoreError)
      | Inr userExpJSON \<Rightarrow>
     (case (case userExpJSON of
              Some j \<Rightarrow> json_Unmarshal j
            | None \<Rightarrow> Inr \<lparr>ID = ''exp'', Owner = user, Amount = 0\<rparr>) of
        Inl e \<Rightarrow> (st2, Inl SerializationError)
      | Inr userExp0 \<Rightarrow>
          let userExp = userExp0\<lparr>Amount := Amount userExp0 + gemAmount\<rparr> in
     (case json_Marshal userExp of
        Inl e \<Rightarrow> (st2, Inl SerializationError)
      | Inr userExpJSON' \<Rightarrow>
     (case PutState st2 userExpKey userExpJSON' of
        Inl e \<Rightarrow> (st2, Inl StoreError)
      | Inr st3 \<Rightarrow> (st3, Inr ())))))))))))))))))"

subsection \<open>Observations of a world state\<close>

text \<open>
  The balance of \<open>(kind, owner)\<close> is what \<^verbatim>\<open>ReadAsset\<close> finds in a fresh transaction, and
  0 when it finds nothing.
\<close>

fun amount_of :: "bytes \<Rightarrow> int" where
  "amount_of (JSON asset) = sint (Amount asset)"

definition record_at :: "world \<Rightarrow> string \<Rightarrow> string \<Rightarrow> Asset option" where
  "record_at w kind owner =
     (case ReadAsset (begin_tx w) kind owner of Inl e \<Rightarrow> None | Inr asset \<Rightarrow> Some asset)"

definition balance :: "world \<Rightarrow> string \<Rightarrow> string \<Rightarrow> int" where
  "balance w kind owner =
     (case record_at w kind owner of None \<Rightarrow> 0 | Some asset \<Rightarrow> sint (Amount asset))"

text \<open>
  A key belongs to \<open>kind\<close> when it is the composite key of \<open>(kind, owner)\<close> for some owner;
  the owner is what the key holds behind the namespace, the object type and the kind.
  The supply of a kind is the sum of the amounts stored under its keys.
\<close>

definition owner_of :: "string \<Rightarrow> string \<Rightarrow> string" where
  "owner_of kind key = butlast (drop (length kind + 8) key)"

definition kind_key :: "string \<Rightarrow> string \<Rightarrow> bool" where
  "kind_key kind key \<longleftrightarrow>
     CreateCompositeKey ''Asset'' [kind, owner_of kind key] = Inr key"

definition total_supply :: "world \<Rightarrow> string \<Rightarrow> int" where
  "total_supply w kind =
     sum_list (map (\<lambda>kv. if kind_key kind (fst kv) then amount_of (snd kv) else 0) w)"

definition nonneg :: "world \<Rightarrow> bool" where
  "nonneg w \<longleftrightarrow> list_all (\<lambda>kv. 0 \<le> amount_of (snd kv)) w"

definition stored_or :: "world \<Rightarrow> string \<Rightarrow> Asset \<Rightarrow> Asset" where
  "stored_or w key dflt = (case map_of w key of None \<Rightarrow> dflt | Some (JSON a) \<Rightarrow> a)"

text \<open>The world state after \<^verbatim>\<open>InitLedger\<close> has run on the empty store.\<close>

definition genesis :: world where
  "genesis = fst (submit InitLedger [])"

text \<open>
  Example states are built by the chaincode itself: \<open>seed\<close> is the world state after one
  \<^verbatim>\<open>CreateAsset\<close> invocation.
\<close>

definition seed :: "world \<Rightarrow> string \<Rightarrow> string \<Rightarrow> 64 word \<Rightarrow> world" where
  "seed w kind owner amount = fst (submit (\<lambda>st. CreateAsset st kind amount owner) w)"

section \<open>Properties\<close>

subsection \<open>Composite keys\<close>

text \<open>
  The composite key of \<open>(kind, owner)\<close> exists exactly when both attributes pass the
  validation; it determines both attributes, it is never empty, and \<open>kind_key\<close> holds of
  the keys of a kind and of no other key.
\<close>

lemmas validate_simps =
  validateCompositeKeyAttribute_def minUnicodeRuneValue_def maxUnicodeRuneValue_def

lemma validate_Asset: "validateCompositeKeyAttribute ''Asset''"
  by (simp add: validate_simps)

lemma validate_no_nul: "validateCompositeKeyAttribute s \<Longrightarrow> CHR 0x00 \<notin> set s"
  by (simp add: validateCompositeKeyAttribute_def minUnicodeRuneValue_def)

lemma validate_literals:
  "validateCompositeKeyAttribute ''gem''" "validateCompositeKeyAttribute ''exp''"
  "validateCompositeKeyAttribute ''Distrib''"
  by (simp_all add: validate_simps)

lemma CreateCompositeKey_pair:
  "CreateCompositeKey ''Asset'' [k, ow] =
     (if validateCompositeKeyAttribute k \<and> validateCompositeKeyAttribute ow
      then Inr (CHR 0x00 # ''Asset'' @ CHR 0x00 # k @ CHR 0x00 # ow @ [CHR 0x00])
      else Inl CompositeKeyError)"
  by (simp add: CreateCompositeKey_def validate_Asset compositeKeyNamespace_def minUnicodeRuneValue_def)

lemma gem_key_valid:
  "CreateCompositeKey ''Asset'' [''gem'', user] = Inr kU \<Longrightarrow> validateCompositeKeyAttribute user"
  by (simp add: CreateCompositeKey_pair split: if_splits)

lemma key_nonempty: "CreateCompositeKey ''Asset'' [k, ow] = Inr key \<Longrightarrow> key \<noteq> []"
  by (auto simp: CreateCompositeKey_pair split: if_splits)

lemma split_at_first:
  "c \<notin> set a \<Longrightarrow> c \<notin> set a' \<Longrightarrow> a @ c # r = a' @ c # r' \<Longrightarrow> a = a' \<and> r = r'"
proof (induction a arbitrary: a')
  case Nil
  then show ?case by (cases a') auto
next
  case (Cons x a)
  then show ?case by (cases a') auto
qed

lemma CreateCompositeKey_inj:
  assumes "CreateCompositeKey ''Asset'' [k, ow] = Inr key"
    and "CreateCompositeKey ''Asset'' [k', ow'] = Inr key"
  shows "k = k' \<and> ow = ow'"
proof -
  from assms have v: "validateCompositeKeyAttribute k" "validateCompositeKeyAttribute ow"
    "validateCompositeKeyAttribute k'" "validateCompositeKeyAttribute ow'"
    and e: "k @ CHR 0x00 # ow @ [CHR 0x00] = k' @ CHR 0x00 # ow' @ [CHR 0x00]"
    by (auto simp: CreateCompositeKey_pair split: if_splits)
  from split_at_first [OF validate_no_nul [OF v(1)] validate_no_nul [OF v(3)] e]
  show ?thesis by simp
qed

lemma owner_of_key:
  "CreateCompositeKey ''Asset'' [k, ow] = Inr key \<Longrightarrow> owner_of k key = ow"
proof -
  assume "CreateCompositeKey ''Asset'' [k, ow] = Inr key"
  then have "key = (CHR 0x00 # ''Asset'' @ CHR 0x00 # k @ [CHR 0x00]) @ (ow @ [CHR 0x00])"
    by (auto simp: CreateCompositeKey_pair split: if_splits)
  moreover have "length (CHR 0x00 # ''Asset'' @ CHR 0x00 # k @ [CHR 0x00]) = length k + 8"
    by simp
  ultimately have "drop (length k + 8) key = ow @ [CHR 0x00]"
    by (metis append_eq_conv_conj)
  then show ?thesis by (simp add: owner_of_def)
qed

lemma kind_keyI: "CreateCompositeKey ''Asset'' [k, ow] = Inr key \<Longrightarrow> kind_key k key"
  by (simp add: kind_key_def owner_of_key)

lemma kind_key_iff:
  "kind_key k key \<longleftrightarrow> (\<exists>ow. CreateCompositeKey ''Asset'' [k, ow] = Inr key)"
  by (auto simp: kind_key_def intro: kind_keyI [unfolded kind_key_def])

lemma kind_key_unique:
  "kind_key k key \<Longrightarrow> CreateCompositeKey ''Asset'' [k', ow] = Inr key \<Longrightarrow> k' = k"
  unfolding kind_key_def using CreateCompositeKey_inj by blast

lemma keys_differ_kind:
  assumes "CreateCompositeKey ''Asset'' [k, ow] = Inr key"
    and "CreateCompositeKey ''Asset'' [k', ow'] = Inr key'" and "k \<noteq> k'"
  shows "key \<noteq> key'" and "\<not> kind_key k key'" and "\<not> kind_key k' key"
  using assms CreateCompositeKey_inj [of k ow key k' ow']
    kind_key_unique [of k key' k' ow'] kind_key_unique [of k' key k ow]
  by blast+

lemma keys_differ_owner:
  assumes "CreateCompositeKey ''Asset'' [k, ow] = Inr key"
    and "CreateCompositeKey ''Asset'' [k, ow'] = Inr key'" and "ow \<noteq> ow'"
  shows "key \<noteq> key'"
  using assms CreateCompositeKey_inj [of k ow key k ow'] by blast

subsection \<open>Signed 64-bit arithmetic\<close>

text \<open>
  A subtraction or an addition of two \<^verbatim>\<open>int\<close>s gives the mathematical result when that
  result lies between \<open>- 2^63\<close> and \<open>2^63 - 1\<close>.
\<close>

lemma sint_sub_exact:
  fixes m n :: "64 word"
  assumes "- (2 ^ 63) \<le> sint m - sint n" and "sint m - sint n < 2 ^ 63"
  shows "sint (m - n) = sint m - sint n"
  using assms by (simp add: sint_word_ariths signed_take_bit_int_eq_self)

lemma sint_add_exact:
  fixes m n :: "64 word"
  assumes "- (2 ^ 63) \<le> sint m + sint n" and "sint m + sint n < 2 ^ 63"
  shows "sint (m + n) = sint m + sint n"
  using assms by (simp add: sint_word_ariths signed_take_bit_int_eq_self)

lemma sint_bounds64:
  fixes m :: "64 word"
  shows "- (2 ^ 63) \<le> sint m" and "sint m < 2 ^ 63"
  using sint_ge [of m] sint_lt [of m] by simp_all

lemma sint_debit:
  fixes m n :: "64 word"
  assumes "0 \<le> sint n" and "sint n \<le> sint m"
  shows "sint (m - n) = sint m - sint n"
  using assms sint_bounds64 [of m] by (intro sint_sub_exact) linarith+

subsection \<open>The store\<close>

text \<open>
  A write replaces the value of a key that is there and adds the key otherwise: the
  supply of a kind changes by the difference at that key, and keys stay distinct.
\<close>

lemma map_of_update: "map_of (AList.update key v w) key' = (if key' = key then Some v else map_of w key')"
  by (simp add: update_conv')

lemma sum_list_update:
  fixes f :: "'k \<times> 'v \<Rightarrow> int"
  shows "(\<Sum>kv\<leftarrow>AList.update key v w. f kv) =
     (\<Sum>kv\<leftarrow>w. f kv) + f (key, v) - (case map_of w key of None \<Rightarrow> 0 | Some v0 \<Rightarrow> f (key, v0))"
  by (induction w) auto

lemma total_supply_update:
  "total_supply (AList.update key v w) kind =
     total_supply w kind +
     (if kind_key kind key
      then amount_of v - (case map_of w key of None \<Rightarrow> 0 | Some v0 \<Rightarrow> amount_of v0)
      else 0)"
  by (simp add: total_supply_def sum_list_update split: option.splits)

lemma nonneg_update:
  "nonneg w \<Longrightarrow> 0 \<le> amount_of v \<Longrightarrow> nonneg (AList.update key v w)"
  unfolding nonneg_def by (induction w) auto

lemma nonneg_lookup: "nonneg w \<Longrightarrow> map_of w key = Some v \<Longrightarrow> 0 \<le> amount_of v"
proof -
  assume "nonneg w" and "map_of w key = Some v"
  then have "(key, v) \<in> set w" and "\<forall>kv\<in>set w. 0 \<le> amount_of (snd kv)"
    by (simp_all add: map_of_SomeD nonneg_def list_all_iff)
  then show ?thesis by force
qed

lemma nonneg_stored_or:
  "nonneg w \<Longrightarrow> Amount dflt = 0 \<Longrightarrow> 0 \<le> sint (Amount (stored_or w key dflt))"
  using nonneg_lookup [of w key]
  by (auto simp: stored_or_def split: option.splits bytes.splits)

lemma stored_amount:
  "Amount dflt = 0 \<Longrightarrow>
   (case map_of w key of None \<Rightarrow> 0 | Some v0 \<Rightarrow> amount_of v0) = sint (Amount (stored_or w key dflt))"
  by (simp add: stored_or_def split: option.splits bytes.splits)

lemma writes_distinct:
  "distinct (map fst w) \<Longrightarrow>
   distinct (map fst (foldl (\<lambda>w kv. AList.update (fst kv) (snd kv) w) w ws))"
  by (induction ws arbitrary: w) (simp_all add: distinct_update)

lemma submit_distinct:
  assumes "distinct (map fst w)" and "\<And>st. committed (fst (f st)) = committed st"
  shows "distinct (map fst (fst (submit f w)))"
proof (cases "f (begin_tx w)")
  case (Pair st r)
  from assms(2) [of "begin_tx w"] Pair have "committed st = w"
    by (simp add: begin_tx_def)
  with assms(1) Pair show ?thesis
    by (cases r) (simp_all add: submit_def commit_def writes_distinct)
qed

subsection \<open>Reading\<close>

text \<open>What the reading operations return, in terms of the committed state.\<close>

lemma ReadAsset_eq:
  "ReadAsset st k ow =
    (case CreateCompositeKey ''Asset'' [k, ow] of
       Inl e \<Rightarrow> Inl CompositeKeyError
     | Inr key \<Rightarrow>
         (case map_of (committed st) key of None \<Rightarrow> Inl NotFound | Some j \<Rightarrow> json_Unmarshal j))"
  by (simp add: ReadAsset_def GetState_def split: sum.splits option.splits)

lemma AssetExists_eq:
  "AssetExists st k ow =
    (case CreateCompositeKey ''Asset'' [k, ow] of
       Inl e \<Rightarrow> Inl CompositeKeyError
     | Inr key \<Rightarrow> Inr (map_of (committed st) key \<noteq> None))"
  by (simp add: AssetExists_def GetState_def split: sum.splits)

lemma record_at_eq:
  "record_at w k ow =
    (case CreateCompositeKey ''Asset'' [k, ow] of
       Inl e \<Rightarrow> None
     | Inr key \<Rightarrow> (case map_of w key of None \<Rightarrow> None | Some (JSON a) \<Rightarrow> Some a))"
  by (simp add: record_at_def ReadAsset_eq begin_tx_def split: sum.splits option.splits bytes.splits)

lemma record_atD:
  "record_at w k ow = Some a \<Longrightarrow>
     \<exists>key. CreateCompositeKey ''Asset'' [k, ow] = Inr key \<and> map_of w key = Some (JSON a)"
  by (auto simp: record_at_eq split: sum.splits option.splits bytes.splits)

lemma balance_eq:
  assumes "CreateCompositeKey ''Asset'' [k, ow] = Inr key" and "Amount dflt = 0"
  shows "balance w k ow = sint (Amount (stored_or w key dflt))"
  using assms by (simp add: balance_def record_at_eq stored_or_def split: option.splits bytes.splits)

lemma balance_stored:
  assumes "CreateCompositeKey ''Asset'' [k, ow] = Inr key" and "map_of w key = Some (JSON a)"
  shows "balance w k ow = sint (Amount a)"
  using assms by (simp add: balance_def record_at_eq)

lemma decode_or_default:
  "(case j of None \<Rightarrow> Inr dflt | Some b \<Rightarrow> json_Unmarshal b) =
     Inr (case j of None \<Rightarrow> dflt | Some (JSON a) \<Rightarrow> a)"
  by (simp split: option.splits bytes.splits)

subsection \<open>What the operations commit\<close>

text \<open>
  The world state each operation commits when it succeeds, and the outcomes it can have:
  either the state is as it was, or it is the state of the successful run.
\<close>

lemma CreateAsset_submit_new:
  assumes "CreateCompositeKey ''Asset'' [k, ow] = Inr key" and "map_of w key = None"
  shows "submit (\<lambda>st. CreateAsset st k amt ow) w =
     (AList.update key (JSON \<lparr>ID = k, Owner = ow, Amount = amt\<rparr>) w, Inr ())"
  using assms key_nonempty [OF assms(1)]
  by (simp add: submit_def CreateAsset_def AssetExists_eq json_Marshal_def PutState_def
      begin_tx_def commit_def)

lemma CreateAsset_submit_old:
  assumes "CreateCompositeKey ''Asset'' [k, ow] = Inr key" and "map_of w key = Some j"
  shows "submit (\<lambda>st. CreateAsset st k amt ow) w = (w, Inl AlreadyExists)"
  using assms
  by (simp add: submit_def CreateAsset_def AssetExists_eq begin_tx_def)

lemma seed_eq:
  "seed w k ow amt =
    (case CreateCompositeKey ''Asset'' [k, ow] of
       Inl e \<Rightarrow> w
     | Inr key \<Rightarrow>
         if map_of w key = None
         then AList.update key (JSON \<lparr>ID = k, Owner = ow, Amount = amt\<rparr>) w else w)"
proof (cases "CreateCompositeKey ''Asset'' [k, ow]")
  case (Inl e)
  then show ?thesis by (simp add: seed_def submit_def CreateAsset_def)
next
  case (Inr key)
  show ?thesis
  proof (cases "map_of w key")
    case None
    with Inr show ?thesis by (simp add: seed_def CreateAsset_submit_new)
  next
    case (Some j)
    with Inr show ?thesis by (simp add: seed_def CreateAsset_submit_old)
  qed
qed

lemma CreateAsset_outcome:
  "fst (submit (\<lambda>st. CreateAsset st k amt ow) w) = w \<or>
   (\<exists>key. fst (submit (\<lambda>st. CreateAsset st k amt ow) w) =
      AList.update key (JSON \<lparr>ID = k, Owner = ow, Amount = amt\<rparr>) w)"
  using seed_eq [of w k ow amt] unfolding seed_def
  by (auto split: sum.splits if_splits)

lemma UpdateAsset_outcome:
  "fst (submit (\<lambda>st. UpdateAsset st k ow amt) w) = w \<or>
   fst (submit (\<lambda>st. UpdateAsset st k ow amt) w) =
      AList.update k (JSON \<lparr>ID = k, Owner = ow, Amount = amt\<rparr>) w"
  by (simp add: submit_def UpdateAsset_def AssetExists_eq json_Marshal_def PutState_def
      begin_tx_def commit_def split: sum.splits)

lemma TransferAsset_submit:
  assumes "CreateCompositeKey ''Asset'' [k, a] = Inr ka"
    and "map_of w ka = Some (JSON src)"
    and "\<not> Amount src <s n"
    and "CreateCompositeKey ''Asset'' [k, b] = Inr kb"
  shows "submit (\<lambda>st. TransferAsset st k a b n) w =
     (AList.update ka (JSON (src\<lparr>Amount := Amount src - n\<rparr>))
        (AList.update kb (JSON \<lparr>ID = k, Owner = b, Amount = n\<rparr>) w),
      Inr (Owner src))"
  using assms key_nonempty [OF assms(1)] key_nonempty [OF assms(4)]
  by (simp add: submit_def TransferAsset_def ReadAsset_eq json_Marshal_def PutState_def
      begin_tx_def commit_def Let_def)

lemma TransferAsset_outcome:
  "fst (submit (\<lambda>st. TransferAsset st k a b n) w) = w \<or>
   (\<exists>ka kb src. map_of w ka = Some (JSON src) \<and> \<not> Amount src <s n \<and>
      fst (submit (\<lambda>st. TransferAsset st k a b n) w) =
        AList.update ka (JSON (src\<lparr>Amount := Amount src - n\<rparr>))
          (AList.update kb (JSON \<lparr>ID = k, Owner = b, Amount = n\<rparr>) w))"
proof (cases "CreateCompositeKey ''Asset'' [k, a]")
  case (Inl e)
  then show ?thesis by (simp add: submit_def TransferAsset_def ReadAsset_eq)
next
  case ka: (Inr ka)
  show ?thesis
  proof (cases "map_of w ka")
    case None
    with ka show ?thesis by (simp add: submit_def TransferAsset_def ReadAsset_eq begin_tx_def)
  next
    case (Some j)
    then obtain src where src: "map_of w ka = Some (JSON src)" by (cases j) simp
    show ?thesis
    proof (cases "Amount src <s n")
      case True
      with ka src show ?thesis
        by (simp add: submit_def TransferAsset_def ReadAsset_eq begin_tx_def)
    next
      case enough: False
      show ?thesis
      proof (cases "CreateCompositeKey ''Asset'' [k, b]")
        case (Inl e)
        with ka src enough show ?thesis
          by (simp add: submit_def TransferAsset_def ReadAsset_eq begin_tx_def json_Marshal_def
              Let_def)
      next
        case (Inr kb)
        from TransferAsset_submit [OF ka src enough Inr] src enough show ?thesis
          by auto
      qed
    qed
  qed
qed

lemma TransferGemToDistrib_submit:
  assumes kU: "CreateCompositeKey ''Asset'' [''gem'', user] = Inr kU"
    and g: "map_of w kU = Some (JSON g)"
    and pos: "0 < sint n" and enough: "sint n \<le> sint (Amount g)"
    and kD: "CreateCompositeKey ''Asset'' [''gem'', ''Distrib''] = Inr kD"
    and kE: "CreateCompositeKey ''Asset'' [''exp'', user] = Inr kE"
    and d0: "d0 = stored_or w kD \<lparr>ID = ''gem'', Owner = ''Distrib'', Amount = 0\<rparr>"
    and e0: "e0 = stored_or w kE \<lparr>ID = ''exp'', Owner = user, Amount = 0\<rparr>"
  shows "submit (\<lambda>st. TransferGemToDistrib st user n) w =
     (AList.update kE (JSON (e0\<lparr>Amount := Amount e0 + n\<rparr>))
        (AList.update kD (JSON (d0\<lparr>Amount := Amount d0 + n\<rparr>))
           (AList.update kU (JSON (g\<lparr>Amount := Amount g - n\<rparr>)) w)),
      Inr ())"
proof -
  have nz: "kU \<noteq> []" "kD \<noteq> []"
    using key_nonempty [OF kU] key_nonempty [OF kD] by simp_all
  have guard: "\<not> n \<le>s 0" "\<not> Amount g <s n"
    using pos enough by (simp_all add: word_sle_eq word_sless_alt)
  show ?thesis
    using kU g kD nz guard
    using kE key_nonempty [OF kE]
    by (simp add: submit_def TransferGemToDistrib_def GetState_def decode_or_default
        json_Marshal_def PutState_def begin_tx_def commit_def Let_def d0 e0 stored_or_def)
qed

lemma TransferGemToDistrib_outcome:
  "fst (submit (\<lambda>st. TransferGemToDistrib st user n) w) = w \<or>
   (\<exists>kU kD kE g.
      CreateCompositeKey ''Asset'' [''gem'', ''Distrib''] = Inr kD \<and>
      CreateCompositeKey ''Asset'' [''exp'', user] = Inr kE \<and>
      map_of w kU = Some (JSON g) \<and> 0 < sint n \<and> sint n \<le> sint (Amount g) \<and>
      fst (submit (\<lambda>st. TransferGemToDistrib st user n) w) =
        AList.update kE
          (JSON ((stored_or w kE \<lparr>ID = ''exp'', Owner = user, Amount = 0\<rparr>)
             \<lparr>Amount := Amount (stored_or w kE \<lparr>ID = ''exp'', Owner = user, Amount = 0\<rparr>) + n\<rparr>))
          (AList.update kD
             (JSON ((stored_or w kD \<lparr>ID = ''gem'', Owner = ''Distrib'', Amount = 0\<rparr>)
                \<lparr>Amount := Amount (stored_or w kD \<lparr>ID = ''gem'', Owner = ''Distrib'', Amount = 0\<rparr>) + n\<rparr>))
             (AList.update kU (JSON (g\<lparr>Amount := Amount g - n\<rparr>)) w)))"
proof (cases "sint n \<le> 0")
  case True
  then show ?thesis by (simp add: TransferGemToDistrib_def submit_def word_sle_eq)
next
  case False
  then have pos: "0 < sint n" and guard: "\<not> n \<le>s 0" by (simp_all add: word_sle_eq)
  show ?thesis
  proof (cases "CreateCompositeKey ''Asset'' [''gem'', user]")
    case (Inl e)
    with guard show ?thesis by (simp add: TransferGemToDistrib_def submit_def)
  next
    case kU: (Inr kU)
    show ?thesis
    proof (cases "map_of w kU")
      case None
      with kU guard show ?thesis
        by (simp add: TransferGemToDistrib_def submit_def GetState_def begin_tx_def)
    next
      case (Some j)
      then obtain g where g: "map_of w kU = Some (JSON g)" by (cases j) simp
      show ?thesis
      proof (cases "Amount g <s n")
        case True
        with kU g guard show ?thesis
          by (simp add: TransferGemToDistrib_def submit_def GetState_def begin_tx_def)
      next
        case False
        then have enough: "sint n \<le> sint (Amount g)" by (simp add: word_sless_alt)
        have vu: "validateCompositeKeyAttribute user" by (rule gem_key_valid [OF kU])
        obtain kD where kD: "CreateCompositeKey ''Asset'' [''gem'', ''Distrib''] = Inr kD"
          by (simp add: CreateCompositeKey_pair validate_literals)
        obtain kE where kE: "CreateCompositeKey ''Asset'' [''exp'', user] = Inr kE"
          by (simp add: CreateCompositeKey_pair validate_literals vu)
        from TransferGemToDistrib_submit [OF kU g pos enough kD kE refl refl] kD kE g pos enough
        show ?thesis by auto
      qed
    qed
  qed
qed

lemma nonneg_CreateAsset:
  assumes "nonneg w" and "0 \<le> sint amt"
  shows "nonneg (fst (submit (\<lambda>st. CreateAsset st k amt ow) w))"
  using CreateAsset_outcome [of k amt ow w] assms
  by (auto simp: nonneg_update)

lemma nonneg_UpdateAsset:
  assumes "nonneg w" and "0 \<le> sint amt"
  shows "nonneg (fst (submit (\<lambda>st. UpdateAsset st k ow amt) w))"
  using UpdateAsset_outcome [of k ow amt w] assms
  by (auto simp: nonneg_update)

lemma nonneg_TransferAsset:
  assumes inv: "nonneg w" and n: "0 \<le> sint n"
  shows "nonneg (fst (submit (\<lambda>st. TransferAsset st k a b n) w))"
  using TransferAsset_outcome [of k a b n w]
proof
  assume "fst (submit (\<lambda>st. TransferAsset st k a b n) w) = w"
  with inv show ?thesis by simp
next
  assume "\<exists>ka kb src. map_of w ka = Some (JSON src) \<and> \<not> Amount src <s n \<and>
      fst (submit (\<lambda>st. TransferAsset st k a b n) w) =
        AList.update ka (JSON (src\<lparr>Amount := Amount src - n\<rparr>))
          (AList.update kb (JSON \<lparr>ID = k, Owner = b, Amount = n\<rparr>) w)"
  then obtain ka kb src where src: "map_of w ka = Some (JSON src)"
    and enough: "sint n \<le> sint (Amount src)"
    and run: "fst (submit (\<lambda>st. TransferAsset st k a b n) w) =
        AList.update ka (JSON (src\<lparr>Amount := Amount src - n\<rparr>))
          (AList.update kb (JSON \<lparr>ID = k, Owner = b, Amount = n\<rparr>) w)"
    by (auto simp: word_sless_alt)
  have "sint (Amount src - n) = sint (Amount src) - sint n"
    using n enough by (rule sint_debit)
  with enough have "0 \<le> amount_of (JSON (src\<lparr>Amount := Amount src - n\<rparr>))" by simp
  moreover from n have "0 \<le> amount_of (JSON \<lparr>ID = k, Owner = b, Amount = n\<rparr>)" by simp
  ultimately show ?thesis
    unfolding run using inv by (intro nonneg_update)
qed

lemma nonneg_TransferGemToDistrib:
  assumes inv: "nonneg w"
    and roomD: "balance w ''gem'' ''Distrib'' + sint n < 2 ^ 63"
    and roomE: "balance w ''exp'' user + sint n < 2 ^ 63"
  shows "nonneg (fst (submit (\<lambda>st. TransferGemToDistrib st user n) w))"
  using TransferGemToDistrib_outcome [of user n w]
proof
  assume "fst (submit (\<lambda>st. TransferGemToDistrib st user n) w) = w"
  with inv show ?thesis by simp
next
  assume "\<exists>kU kD kE g.
      CreateCompositeKey ''Asset'' [''gem'', ''Distrib''] = Inr kD \<and>
      CreateCompositeKey ''Asset'' [''exp'', user] = Inr kE \<and>
      map_of w kU = Some (JSON g) \<and> 0 < sint n \<and> sint n \<le> sint (Amount g) \<and>
      fst (submit (\<lambda>st. TransferGemToDistrib st user n) w) =
        AList.update kE
          (JSON ((stored_or w kE \<lparr>ID = ''exp'', Owner = user, Amount = 0\<rparr>)
             \<lparr>Amount := Amount (stored_or w kE \<lparr>ID = ''exp'', Owner = user, Amount = 0\<rparr>) + n\<rparr>))
          (AList.update kD
             (JSON ((stored_or w kD \<lparr>ID = ''gem'', Owner = ''Distrib'', Amount = 0\<rparr>)
                \<lparr>Amount := Amount (stored_or w kD \<lparr>ID = ''gem'', Owner = ''Distrib'', Amount = 0\<rparr>) + n\<rparr>))
             (AList.update kU (JSON (g\<lparr>Amount := Amount g - n\<rparr>)) w))"
  then obtain kU kD kE g
    where kD: "CreateCompositeKey ''Asset'' [''gem'', ''Distrib''] = Inr kD"
      and kE: "CreateCompositeKey ''Asset'' [''exp'', user] = Inr kE"
      and g: "map_of w kU = Some (JSON g)"
      and pos: "0 < sint n" and enough: "sint n \<le> sint (Amount g)"
      and run: "fst (submit (\<lambda>st. TransferGemToDistrib st user n) w) =
        AList.update kE
          (JSON ((stored_or w kE \<lparr>ID = ''exp'', Owner = user, Amount = 0\<rparr>)
             \<lparr>Amount := Amount (stored_or w kE \<lparr>ID = ''exp'', Owner = user, Amount = 0\<rparr>) + n\<rparr>))
          (AList.update kD
             (JSON ((stored_or w kD \<lparr>ID = ''gem'', Owner = ''Distrib'', Amount = 0\<rparr>)
                \<lparr>Amount := Amount (stored_or w kD \<lparr>ID = ''gem'', Owner = ''Distrib'', Amount = 0\<rparr>) + n\<rparr>))
             (AList.update kU (JSON (g\<lparr>Amount := Amount g - n\<rparr>)) w))"
    by blast
  define d0 where "d0 = stored_or w kD \<lparr>ID = ''gem'', Owner = ''Distrib'', Amount = 0\<rparr>"
  define e0 where "e0 = stored_or w kE \<lparr>ID = ''exp'', Owner = user, Amount = 0\<rparr>"
  have balD: "balance w ''gem'' ''Distrib'' = sint (Amount d0)"
    unfolding d0_def by (rule balance_eq [OF kD]) simp
  have balE: "balance w ''exp'' user = sint (Amount e0)"
    unfolding e0_def by (rule balance_eq [OF kE]) simp
  have d0_pos: "0 \<le> sint (Amount d0)"
    unfolding d0_def using inv by (rule nonneg_stored_or) simp
  have e0_pos: "0 \<le> sint (Amount e0)"
    unfolding e0_def using inv by (rule nonneg_stored_or) simp
  have "sint (Amount g - n) = sint (Amount g) - sint n"
    using pos enough by (simp add: sint_debit)
  with enough have vg: "0 \<le> amount_of (JSON (g\<lparr>Amount := Amount g - n\<rparr>))" by simp
  have "sint (Amount d0 + n) = sint (Amount d0) + sint n"
    using roomD pos d0_pos unfolding balD by (intro sint_add_exact) linarith+
  with pos d0_pos have vd: "0 \<le> amount_of (JSON (d0\<lparr>Amount := Amount d0 + n\<rparr>))" by simp
  have "sint (Amount e0 + n) = sint (Amount e0) + sint n"
    using roomE pos e0_pos unfolding balE by (intro sint_add_exact) linarith+
  with pos e0_pos have ve: "0 \<le> amount_of (JSON (e0\<lparr>Amount := Amount e0 + n\<rparr>))" by simp
  show ?thesis
    unfolding run d0_def [symmetric] e0_def [symmetric]
    by (intro nonneg_update inv vg vd ve)
qed

subsection \<open>Example states\<close>

text \<open>The state \<^verbatim>\<open>InitLedger\<close> leaves, and the facts about it the examples use.\<close>

lemmas run_simps =
  submit_def begin_tx_def commit_def json_Marshal_def PutState_def GetState_def
  CreateCompositeKey_pair validate_simps

lemmas eval_simps =
  TransferGemToDistrib_def run_simps seed_eq
  balance_def record_at_eq total_supply_def kind_key_def owner_of_def Let_def
  word_sle_eq word_sless_alt

lemma InitLedger_submit:
  "submit InitLedger [] =
     ([(CHR 0x00 # ''Asset'' @ CHR 0x00 # ''exp'' @ CHR 0x00 # ''distrib'' @ [CHR 0x00],
          JSON \<lparr>ID = ''exp'', Owner = ''distrib'', Amount = 5\<rparr>),
       (CHR 0x00 # ''Asset'' @ CHR 0x00 # ''gem'' @ CHR 0x00 # ''seo'' @ [CHR 0x00],
          JSON \<lparr>ID = ''gem'', Owner = ''seo'', Amount = 3000\<rparr>),
       (CHR 0x00 # ''Asset'' @ CHR 0x00 # ''gem'' @ CHR 0x00 # ''team1'' @ [CHR 0x00],
          JSON \<lparr>ID = ''gem'', Owner = ''team1'', Amount = 3\<rparr>),
       (CHR 0x00 # ''Asset'' @ CHR 0x00 # ''exp'' @ CHR 0x00 # ''team1'' @ [CHR 0x00],
          JSON \<lparr>ID = ''exp'', Owner = ''team1'', Amount = 6\<rparr>),
       (CHR 0x00 # ''Asset'' @ CHR 0x00 # ''gem'' @ CHR 0x00 # ''team2'' @ [CHR 0x00],
          JSON \<lparr>ID = ''gem'', Owner = ''team2'', Amount = 15\<rparr>),
       (CHR 0x00 # ''Asset'' @ CHR 0x00 # ''exp'' @ CHR 0x00 # ''team2'' @ [CHR 0x00],
          JSON \<lparr>ID = ''exp'', Owner = ''team2'', Amount = 30\<rparr>)],
      Inr ())"
  by (simp add: submit_def InitLedger_def initial_assets_def begin_tx_def commit_def
      json_Marshal_def CreateCompositeKey_pair validate_simps PutState_def)

lemmas genesis_eq = genesis_def [unfolded InitLedger_submit fst_conv]

lemma genesis_gem_seo:
  "record_at genesis ''gem'' ''seo'' = Some \<lparr>ID = ''gem'', Owner = ''seo'', Amount = 3000\<rparr>"
  by (simp add: record_at_eq CreateCompositeKey_pair validate_simps genesis_eq)

lemma genesis_balances:
  "balance genesis ''gem'' ''seo'' = 3000" "balance genesis ''gem'' ''team1'' = 3"
  "balance genesis ''gem'' ''Distrib'' = 0" "balance genesis ''exp'' ''seo'' = 0"
  by (simp_all add: balance_def record_at_eq CreateCompositeKey_pair validate_simps genesis_eq)

lemma genesis_supply:
  "total_supply genesis ''gem'' = 3018" "total_supply genesis ''exp'' = 41"
  by (simp_all add: total_supply_def kind_key_def owner_of_def CreateCompositeKey_pair
      validate_simps genesis_eq)

lemma nonneg_genesis: "nonneg genesis"
  by (simp add: nonneg_def genesis_eq)

lemma seed_collector:
  "record_at (seed [] ''gem'' ''Distrib'' 5) ''gem'' ''Distrib'' =
     Some \<lparr>ID = ''gem'', Owner = ''Distrib'', Amount = 5\<rparr>"
  by (simp add: seed_eq record_at_eq CreateCompositeKey_pair validate_simps)

lemma GetAllAssets_loop_eq:
  "GetAllAssets_loop it acc = Inr (acc @ map (\<lambda>kv. case snd kv of JSON a \<Rightarrow> a) it)"
  by (induction it arbitrary: acc) (auto split: bytes.splits)

section \<open>The claims\<close>

text \<open>
  C1: the specification asks that a transfer from \<open>a\<close> to a different owner \<open>b\<close> adds
  \<open>n\<close> to the balance of \<open>b\<close> and keeps the supply of the kind. \<^verbatim>\<open>TransferAsset\<close> never
  reads the destination: it writes a record holding \<open>n\<close> over it. From the state
  \<^verbatim>\<open>InitLedger\<close> leaves, moving 10 gem from seo to team1, who holds 3, leaves team1 with 10,
  not 13, and takes the gem supply from 3018 to 3015.
\<close>

theorem TransferAsset_overwrites_destination:
  "case submit (\<lambda>st. TransferAsset st ''gem'' ''seo'' ''team1'' 10) genesis of
     (w', r) \<Rightarrow>
       r = Inr ''seo'' \<and>
       balance genesis ''gem'' ''seo'' = 3000 \<and> balance w' ''gem'' ''seo'' = 2990 \<and>
       balance genesis ''gem'' ''team1'' = 3 \<and> balance w' ''gem'' ''team1'' = 10 \<and>
       total_supply genesis ''gem'' = 3018 \<and> total_supply w' ''gem'' = 3015"
  by (simp add: TransferAsset_def ReadAsset_eq run_simps genesis_eq balance_def record_at_eq
      total_supply_def kind_key_def owner_of_def Let_def)

text \<open>
  C2: the specification asks that \<^verbatim>\<open>UpdateAsset\<close> check and overwrite the same key, the
  composite key of \<open>(kind, owner)\<close>. \<^verbatim>\<open>UpdateAsset\<close> checks the composite key and writes
  the key \<open>id\<close>: from the state \<^verbatim>\<open>InitLedger\<close> leaves, updating (gem, seo) to 5 succeeds,
  leaves the record at the composite key at 3000 and creates a second record under the
  key \<^verbatim>\<open>"gem"\<close>. The other revision of the package reads and writes the key \<open>id\<close> and so
  does not find the record at all.
\<close>

theorem UpdateAsset_writes_raw_key:
  "case submit (\<lambda>st. UpdateAsset st ''gem'' ''seo'' 5) genesis of
     (w', r) \<Rightarrow>
       r = Inr () \<and>
       record_at w' ''gem'' ''seo'' = Some \<lparr>ID = ''gem'', Owner = ''seo'', Amount = 3000\<rparr> \<and>
       map_of genesis ''gem'' = None \<and>
       map_of w' ''gem'' = Some (JSON \<lparr>ID = ''gem'', Owner = ''seo'', Amount = 5\<rparr>) \<and>
       submit (\<lambda>st. UpdateAsset2 st ''gem'' ''seo'' 5) genesis = (genesis, Inl NotFound)"
  by (simp add: UpdateAsset_def AssetExists_eq UpdateAsset2_def AssetExists2_def run_simps
      genesis_eq record_at_eq)

text \<open>
  C3, amended: on a state whose stored amounts are all non-negative, \<^verbatim>\<open>CreateAsset\<close>,
  \<^verbatim>\<open>UpdateAsset\<close> and \<^verbatim>\<open>TransferAsset\<close> called with a non-negative amount leave every
  stored amount non-negative, and so does \<^verbatim>\<open>TransferGemToDistrib\<close> with any amount for
  which neither the collector's gem balance plus the amount nor the user's exp balance
  plus the amount passes the largest \<^verbatim>\<open>int\<close>.
\<close>

theorem nonneg_preserved:
  assumes "nonneg w"
  shows "(0 \<le> sint amount \<longrightarrow>
            nonneg (fst (submit (\<lambda>st. CreateAsset st kind amount owner) w))) \<and>
         (0 \<le> sint amount \<longrightarrow>
            nonneg (fst (submit (\<lambda>st. UpdateAsset st kind owner amount) w))) \<and>
         (0 \<le> sint amount \<longrightarrow>
            nonneg (fst (submit (\<lambda>st. TransferAsset st kind owner newOwner amount) w))) \<and>
         (balance w ''gem'' ''Distrib'' + sint amount < 2 ^ 63 \<and>
          balance w ''exp'' owner + sint amount < 2 ^ 63 \<longrightarrow>
            nonneg (fst (submit (\<lambda>st. TransferGemToDistrib st owner amount) w)))"
  using assms
  by (simp add: nonneg_CreateAsset nonneg_UpdateAsset nonneg_TransferAsset
      nonneg_TransferGemToDistrib)

theorem nonneg_preserved_witness:
  "nonneg genesis \<and> 0 \<le> sint (7 :: 64 word) \<and>
   balance genesis ''gem'' ''Distrib'' + sint (7 :: 64 word) < 2 ^ 63 \<and>
   balance genesis ''exp'' ''seo'' + sint (7 :: 64 word) < 2 ^ 63 \<and>
   nonneg (fst (submit (\<lambda>st. CreateAsset st ''gem'' 7 ''seo'') genesis)) \<and>
   nonneg (fst (submit (\<lambda>st. UpdateAsset st ''gem'' ''seo'' 7) genesis)) \<and>
   nonneg (fst (submit (\<lambda>st. TransferAsset st ''gem'' ''seo'' ''team1'' 7) genesis)) \<and>
   nonneg (fst (submit (\<lambda>st. TransferGemToDistrib st ''seo'' 7) genesis))"
  using nonneg_preserved [OF nonneg_genesis, of 7 "''gem''" "''seo''" "''team1''"] nonneg_genesis
  by (simp add: genesis_balances)

text \<open>
  C3 as stated fails: no operation but \<^verbatim>\<open>TransferGemToDistrib\<close> looks at the sign of its
  amount, so \<^verbatim>\<open>CreateAsset\<close>, \<^verbatim>\<open>UpdateAsset\<close> and \<^verbatim>\<open>TransferAsset\<close> store the negative
  amount they are given; and \<^verbatim>\<open>TransferGemToDistrib\<close> with the amount 1 takes a collector
  holding the largest \<^verbatim>\<open>int\<close> to the smallest.
\<close>

theorem nonneg_counterexample:
  "nonneg [] \<and>
   \<not> nonneg (fst (submit (\<lambda>st. CreateAsset st ''gem'' (- 1) ''seo'') [])) \<and>
   nonneg genesis \<and>
   \<not> nonneg (fst (submit (\<lambda>st. UpdateAsset st ''gem'' ''seo'' (- 1)) genesis)) \<and>
   \<not> nonneg (fst (submit (\<lambda>st. TransferAsset st ''gem'' ''seo'' ''team1'' (- 1)) genesis)) \<and>
   nonneg (seed (seed [] ''gem'' ''Distrib'' 9223372036854775807) ''gem'' ''seo'' 1) \<and>
   \<not> nonneg (fst (submit (\<lambda>st. TransferGemToDistrib st ''seo'' 1)
                  (seed (seed [] ''gem'' ''Distrib'' 9223372036854775807) ''gem'' ''seo'' 1)))"
  by (simp add: nonneg_def eval_simps CreateAsset_def UpdateAsset_def TransferAsset_def
      AssetExists_eq ReadAsset_eq genesis_eq)

text \<open>
  C4, amended: for a user other than the collector \<^verbatim>\<open>"Distrib"\<close> whose gem record holds
  \<open>m\<close>, and \<open>0 < n \<le> m\<close>, and when neither the collector's gem balance plus \<open>n\<close> nor
  the user's exp balance plus \<open>n\<close> exceeds the largest \<^verbatim>\<open>int\<close>, \<^verbatim>\<open>TransferGemToDistrib\<close>
  succeeds; afterwards the user's gem balance is \<open>m - n\<close>, the collector's gem balance and
  the user's exp balance have each gone up by \<open>n\<close> (from 0 when the record was absent),
  the gem supply is unchanged and the exp supply has gone up by \<open>n\<close>.
\<close>

theorem TransferGemToDistrib_converts:
  assumes other: "user \<noteq> ''Distrib''"
    and rec: "record_at w ''gem'' user = Some g"
    and pos: "0 < sint n" and enough: "sint n \<le> sint (Amount g)"
    and roomD: "balance w ''gem'' ''Distrib'' + sint n < 2 ^ 63"
    and roomE: "balance w ''exp'' user + sint n < 2 ^ 63"
  shows "case submit (\<lambda>st. TransferGemToDistrib st user n) w of
           (w', r) \<Rightarrow>
             r = Inr () \<and>
             balance w' ''gem'' user = sint (Amount g) - sint n \<and>
             balance w' ''gem'' ''Distrib'' = balance w ''gem'' ''Distrib'' + sint n \<and>
             balance w' ''exp'' user = balance w ''exp'' user + sint n \<and>
             total_supply w' ''gem'' = total_supply w ''gem'' \<and>
             total_supply w' ''exp'' = total_supply w ''exp'' + sint n"
proof -
  from record_atD [OF rec] obtain kU
    where kU: "CreateCompositeKey ''Asset'' [''gem'', user] = Inr kU"
      and g: "map_of w kU = Some (JSON g)"
    by blast
  have vu: "validateCompositeKeyAttribute user" by (rule gem_key_valid [OF kU])
  obtain kD where kD: "CreateCompositeKey ''Asset'' [''gem'', ''Distrib''] = Inr kD"
    by (simp add: CreateCompositeKey_pair validate_literals)
  obtain kE where kE: "CreateCompositeKey ''Asset'' [''exp'', user] = Inr kE"
    by (simp add: CreateCompositeKey_pair validate_literals vu)
  define d0 where "d0 = stored_or w kD \<lparr>ID = ''gem'', Owner = ''Distrib'', Amount = 0\<rparr>"
  define e0 where "e0 = stored_or w kE \<lparr>ID = ''exp'', Owner = user, Amount = 0\<rparr>"
  define g' where "g' = g\<lparr>Amount := Amount g - n\<rparr>"
  define d' where "d' = d0\<lparr>Amount := Amount d0 + n\<rparr>"
  define e' where "e' = e0\<lparr>Amount := Amount e0 + n\<rparr>"
  define w1 where "w1 = AList.update kU (JSON g') w"
  define w2 where "w2 = AList.update kD (JSON d') w1"
  define w3 where "w3 = AList.update kE (JSON e') w2"
  have run: "submit (\<lambda>st. TransferGemToDistrib st user n) w = (w3, Inr ())"
    unfolding w3_def w2_def w1_def e'_def d'_def g'_def
    by (rule TransferGemToDistrib_submit [OF kU g pos enough kD kE d0_def e0_def])
  have gem_exp: "''gem'' \<noteq> ''exp''" by simp
  have UD: "kU \<noteq> kD" by (rule keys_differ_owner [OF kU kD other])
  have UE: "kU \<noteq> kE" by (rule keys_differ_kind(1) [OF kU kE gem_exp])
  have DE: "kD \<noteq> kE" by (rule keys_differ_kind(1) [OF kD kE gem_exp])
  have gU: "kind_key ''gem'' kU" by (rule kind_keyI [OF kU])
  have gD: "kind_key ''gem'' kD" by (rule kind_keyI [OF kD])
  have eE: "kind_key ''exp'' kE" by (rule kind_keyI [OF kE])
  have gE: "\<not> kind_key ''gem'' kE" by (rule keys_differ_kind(2) [OF kU kE gem_exp])
  have eU: "\<not> kind_key ''exp'' kU" by (rule keys_differ_kind(3) [OF kU kE gem_exp])
  have eD: "\<not> kind_key ''exp'' kD" by (rule keys_differ_kind(3) [OF kD kE gem_exp])
  have balD: "balance w ''gem'' ''Distrib'' = sint (Amount d0)"
    unfolding d0_def by (rule balance_eq [OF kD]) simp
  have balE: "balance w ''exp'' user = sint (Amount e0)"
    unfolding e0_def by (rule balance_eq [OF kE]) simp
  have sg: "sint (Amount g') = sint (Amount g) - sint n"
    using pos enough by (simp add: g'_def sint_debit)
  have "sint (Amount d0 + n) = sint (Amount d0) + sint n"
    using roomD pos sint_bounds64 [of "Amount d0"] unfolding balD
    by (intro sint_add_exact) linarith+
  then have sd: "sint (Amount d') = sint (Amount d0) + sint n"
    by (simp add: d'_def)
  have "sint (Amount e0 + n) = sint (Amount e0) + sint n"
    using roomE pos sint_bounds64 [of "Amount e0"] unfolding balE
    by (intro sint_add_exact) linarith+
  then have se: "sint (Amount e') = sint (Amount e0) + sint n"
    by (simp add: e'_def)
  have oldD: "(case map_of w kD of None \<Rightarrow> 0 | Some v0 \<Rightarrow> amount_of v0) = sint (Amount d0)"
    unfolding d0_def by (rule stored_amount) simp
  have oldE: "(case map_of w kE of None \<Rightarrow> 0 | Some v0 \<Rightarrow> amount_of v0) = sint (Amount e0)"
    unfolding e0_def by (rule stored_amount) simp
  have m3U: "map_of w3 kU = Some (JSON g')"
    using UD UE by (simp add: w3_def w2_def w1_def map_of_update)
  have m3D: "map_of w3 kD = Some (JSON d')"
    using DE by (simp add: w3_def w2_def map_of_update)
  have m3E: "map_of w3 kE = Some (JSON e')"
    by (simp add: w3_def map_of_update)
  have m1D: "map_of w1 kD = map_of w kD"
    using UD by (simp add: w1_def map_of_update)
  have m2E: "map_of w2 kE = map_of w kE"
    using UE DE by (simp add: w2_def w1_def map_of_update)
  have b1: "balance w3 ''gem'' user = sint (Amount g) - sint n"
    by (simp add: balance_stored [OF kU m3U] sg)
  have b2: "balance w3 ''gem'' ''Distrib'' = balance w ''gem'' ''Distrib'' + sint n"
    by (simp add: balance_stored [OF kD m3D] sd balD)
  have b3: "balance w3 ''exp'' user = balance w ''exp'' user + sint n"
    by (simp add: balance_stored [OF kE m3E] se balE)
  have g1: "total_supply w1 ''gem'' = total_supply w ''gem'' - sint n"
    by (simp add: w1_def total_supply_update gU g sg)
  have g2: "total_supply w2 ''gem'' = total_supply w1 ''gem'' + sint n"
    by (simp add: w2_def total_supply_update gD m1D oldD sd)
  have g3: "total_supply w3 ''gem'' = total_supply w2 ''gem''"
    by (simp add: w3_def total_supply_update gE)
  have e1: "total_supply w1 ''exp'' = total_supply w ''exp''"
    by (simp add: w1_def total_supply_update eU)
  have e2: "total_supply w2 ''exp'' = total_supply w1 ''exp''"
    by (simp add: w2_def total_supply_update eD)
  have e3: "total_supply w3 ''exp'' = total_supply w2 ''exp'' + sint n"
    by (simp add: w3_def total_supply_update eE m2E oldE se)
  show ?thesis
    by (simp add: run b1 b2 b3 g1 g2 g3 e1 e2 e3)
qed

theorem TransferGemToDistrib_converts_witness:
  "''seo'' \<noteq> ''Distrib'' \<and>
   record_at genesis ''gem'' ''seo'' = Some \<lparr>ID = ''gem'', Owner = ''seo'', Amount = 3000\<rparr> \<and>
   0 < sint (10 :: 64 word) \<and> sint (10 :: 64 word) \<le> sint (3000 :: 64 word) \<and>
   balance genesis ''gem'' ''Distrib'' + sint (10 :: 64 word) < 2 ^ 63 \<and>
   balance genesis ''exp'' ''seo'' + sint (10 :: 64 word) < 2 ^ 63 \<and>
   (case submit (\<lambda>st. TransferGemToDistrib st ''seo'' 10) genesis of
      (w', r) \<Rightarrow>
        r = Inr () \<and>
        balance w' ''gem'' ''seo'' = 2990 \<and>
        balance w' ''gem'' ''Distrib'' = 10 \<and>
        balance w' ''exp'' ''seo'' = 10 \<and>
        total_supply w' ''gem'' = total_supply genesis ''gem'' \<and>
        total_supply w' ''exp'' = total_supply genesis ''exp'' + 10)"
proof -
  have other: "''seo'' \<noteq> ''Distrib''" by simp
  have pos: "0 < sint (10 :: 64 word)" by simp
  have le: "sint (10 :: 64 word) \<le> sint (Amount \<lparr>ID = ''gem'', Owner = ''seo'', Amount = 3000\<rparr>)"
    by simp
  have roomD: "balance genesis ''gem'' ''Distrib'' + sint (10 :: 64 word) < 2 ^ 63"
    by (simp add: genesis_balances)
  have roomE: "balance genesis ''exp'' ''seo'' + sint (10 :: 64 word) < 2 ^ 63"
    by (simp add: genesis_balances)
  from TransferGemToDistrib_converts [OF other genesis_gem_seo pos le roomD roomE]
    genesis_gem_seo roomD roomE
  show ?thesis by (simp add: genesis_balances split: prod.splits)
qed

text \<open>
  C4 as stated fails in three places. When the user is the collector the one gem record
  goes from 5 to 7 on a conversion of 2, neither \<open>5 - 2\<close> nor a conserved supply. When
  the collector's gem balance, or the user's exp balance, is the largest \<^verbatim>\<open>int\<close>, adding
  1 wraps around to the smallest.
\<close>

theorem TransferGemToDistrib_converts_counterexample:
  "(case submit (\<lambda>st. TransferGemToDistrib st ''Distrib'' 2) (seed [] ''gem'' ''Distrib'' 5) of
      (w', r) \<Rightarrow>
        r = Inr () \<and>
        balance (seed [] ''gem'' ''Distrib'' 5) ''gem'' ''Distrib'' = 5 \<and>
        balance w' ''gem'' ''Distrib'' = 7 \<and>
        balance w' ''gem'' ''Distrib'' \<noteq> 5 - 2 \<and>
        total_supply (seed [] ''gem'' ''Distrib'' 5) ''gem'' = 5 \<and>
        total_supply w' ''gem'' = 7) \<and>
   (case submit (\<lambda>st. TransferGemToDistrib st ''seo'' 1)
           (seed (seed [] ''gem'' ''Distrib'' 9223372036854775807) ''gem'' ''seo'' 1) of
      (w', r) \<Rightarrow>
        r = Inr () \<and>
        balance (seed (seed [] ''gem'' ''Distrib'' 9223372036854775807) ''gem'' ''seo'' 1)
          ''gem'' ''Distrib'' = 9223372036854775807 \<and>
        balance w' ''gem'' ''Distrib'' = - 9223372036854775808) \<and>
   (case submit (\<lambda>st. TransferGemToDistrib st ''seo'' 1)
           (seed (seed [] ''exp'' ''seo'' 9223372036854775807) ''gem'' ''seo'' 1) of
      (w', r) \<Rightarrow>
        r = Inr () \<and>
        balance (seed (seed [] ''exp'' ''seo'' 9223372036854775807) ''gem'' ''seo'' 1)
          ''exp'' ''seo'' = 9223372036854775807 \<and>
        balance w' ''exp'' ''seo'' = - 9223372036854775808)"
  by (simp add: eval_simps)

text \<open>
  C5: when the source record \<open>(kind, a)\<close> exists with a balance below \<open>n\<close>,
  \<^verbatim>\<open>TransferAsset\<close> fails with \<open>InsufficientBalance\<close>. The stub it returns is the stub it
  was given, so no write was made, and the world state after the invocation is the world
  state before it: source and destination records are as they were.
\<close>

theorem TransferAsset_insufficient:
  assumes "record_at w kind a = Some src" and "sint (Amount src) < sint n"
  shows "TransferAsset (begin_tx w) kind a b n = (begin_tx w, Inl InsufficientBalance) \<and>
         submit (\<lambda>st. TransferAsset st kind a b n) w = (w, Inl InsufficientBalance)"
proof -
  from record_atD [OF assms(1)] obtain key
    where "CreateCompositeKey ''Asset'' [kind, a] = Inr key" and "map_of w key = Some (JSON src)"
    by blast
  then have "TransferAsset (begin_tx w) kind a b n = (begin_tx w, Inl InsufficientBalance)"
    using assms(2) by (simp add: TransferAsset_def ReadAsset_eq begin_tx_def word_sless_alt)
  then show ?thesis by (simp add: submit_def)
qed

theorem TransferAsset_insufficient_witness:
  "record_at genesis ''gem'' ''seo'' = Some \<lparr>ID = ''gem'', Owner = ''seo'', Amount = 3000\<rparr> \<and>
   sint (3000 :: 64 word) < sint (5000 :: 64 word) \<and>
   TransferAsset (begin_tx genesis) ''gem'' ''seo'' ''team1'' 5000 =
     (begin_tx genesis, Inl InsufficientBalance) \<and>
   submit (\<lambda>st. TransferAsset st ''gem'' ''seo'' ''team1'' 5000) genesis =
     (genesis, Inl InsufficientBalance)"
proof -
  have less: "sint (Amount \<lparr>ID = ''gem'', Owner = ''seo'', Amount = 3000\<rparr>) < sint (5000 :: 64 word)"
    by simp
  from TransferAsset_insufficient [OF genesis_gem_seo less, of "''team1''"] genesis_gem_seo
  show ?thesis by simp
qed

text \<open>
  C6: with an amount that is zero or negative, \<^verbatim>\<open>TransferGemToDistrib\<close> (the
  specification's \<^verbatim>\<open>ConvertGemToExp\<close>) fails with \<open>InvalidArgument\<close> before it reads or
  writes anything: the stub comes back as it was given, and the world state is unchanged.
\<close>

theorem TransferGemToDistrib_nonpositive:
  assumes "sint n \<le> 0"
  shows "TransferGemToDistrib st user n = (st, Inl InvalidArgument) \<and>
         submit (\<lambda>st. TransferGemToDistrib st user n) w = (w, Inl InvalidArgument)"
  using assms by (simp add: TransferGemToDistrib_def submit_def word_sle_eq)

theorem TransferGemToDistrib_nonpositive_witness:
  "sint (- 4 :: 64 word) \<le> 0 \<and>
   TransferGemToDistrib (begin_tx genesis) ''seo'' (- 4) = (begin_tx genesis, Inl InvalidArgument) \<and>
   submit (\<lambda>st. TransferGemToDistrib st ''seo'' (- 4)) genesis = (genesis, Inl InvalidArgument)"
proof -
  have neg: "sint (- 4 :: 64 word) \<le> 0" by simp
  from neg TransferGemToDistrib_nonpositive [OF neg, of "begin_tx genesis" "''seo''" genesis]
  show ?thesis by simp
qed

text \<open>
  C7, amended: for every \<open>kind\<close> and \<open>owner\<close> that \<^verbatim>\<open>CreateCompositeKey\<close> accepts as
  attributes (valid UTF-8 without U+0000 and U+10FFFF), on a state with no record at
  \<open>(kind, owner)\<close>, \<^verbatim>\<open>CreateAsset\<close> succeeds and stores the record; a second
  \<^verbatim>\<open>CreateAsset\<close> for the same \<open>(kind, owner)\<close> right after it fails with
  \<open>AlreadyExists\<close> and leaves the state, and so the first record, unchanged.
\<close>

theorem CreateAsset_twice:
  assumes "validateCompositeKeyAttribute kind" and "validateCompositeKeyAttribute owner"
    and "record_at w kind owner = None"
  shows "case submit (\<lambda>st. CreateAsset st kind a1 owner) w of
           (w1, r1) \<Rightarrow>
             r1 = Inr () \<and>
             record_at w1 kind owner = Some \<lparr>ID = kind, Owner = owner, Amount = a1\<rparr> \<and>
             submit (\<lambda>st. CreateAsset st kind a2 owner) w1 = (w1, Inl AlreadyExists)"
proof -
  from assms(1,2) obtain key where key: "CreateCompositeKey ''Asset'' [kind, owner] = Inr key"
    by (simp add: CreateCompositeKey_pair)
  from assms(3) have absent: "map_of w key = None"
    by (simp add: record_at_eq key split: option.splits bytes.splits)
  let ?w1 = "AList.update key (JSON \<lparr>ID = kind, Owner = owner, Amount = a1\<rparr>) w"
  have first: "submit (\<lambda>st. CreateAsset st kind a1 owner) w = (?w1, Inr ())"
    by (rule CreateAsset_submit_new [OF key absent])
  have stored: "map_of ?w1 key = Some (JSON \<lparr>ID = kind, Owner = owner, Amount = a1\<rparr>)"
    by (simp add: map_of_update)
  have "record_at ?w1 kind owner = Some \<lparr>ID = kind, Owner = owner, Amount = a1\<rparr>"
    by (simp add: record_at_eq key stored)
  moreover have "submit (\<lambda>st. CreateAsset st kind a2 owner) ?w1 = (?w1, Inl AlreadyExists)"
    by (rule CreateAsset_submit_old [OF key stored])
  ultimately show ?thesis by (simp add: first)
qed

theorem CreateAsset_twice_witness:
  "validateCompositeKeyAttribute ''gem'' \<and> validateCompositeKeyAttribute ''seo'' \<and>
   record_at [] ''gem'' ''seo'' = None \<and>
   (case submit (\<lambda>st. CreateAsset st ''gem'' 7 ''seo'') [] of
      (w1, r1) \<Rightarrow>
        r1 = Inr () \<and>
        record_at w1 ''gem'' ''seo'' = Some \<lparr>ID = ''gem'', Owner = ''seo'', Amount = 7\<rparr> \<and>
        submit (\<lambda>st. CreateAsset st ''gem'' 9 ''seo'') w1 = (w1, Inl AlreadyExists))"
proof -
  have vk: "validateCompositeKeyAttribute ''gem''" and vo: "validateCompositeKeyAttribute ''seo''"
    by (simp_all add: validate_simps)
  have none: "record_at [] ''gem'' ''seo'' = None"
    by (simp add: record_at_eq CreateCompositeKey_pair vk vo)
  from vk vo none CreateAsset_twice [OF vk vo none, of 7 9] show ?thesis by simp
qed

text \<open>
  C7 as stated, for every \<open>(kind, owner)\<close>, fails: a kind that holds U+0000 has no
  composite key. The empty store has no record at all, yet the first \<^verbatim>\<open>CreateAsset\<close>
  returns the composite-key error and stores nothing.
\<close>

theorem CreateAsset_twice_counterexample:
  "record_at [] [CHR 0x00] ''seo'' = None \<and>
   CreateCompositeKey ''Asset'' [[CHR 0x00], ''seo''] = Inl CompositeKeyError \<and>
   submit (\<lambda>st. CreateAsset st [CHR 0x00] 7 ''seo'') [] = ([], Inl CompositeKeyError) \<and>
   snd (submit (\<lambda>st. CreateAsset st [CHR 0x00] 7 ''seo'') []) \<noteq> Inr ()"
  by (simp add: record_at_eq CreateCompositeKey_pair validate_simps submit_def CreateAsset_def)

text \<open>
  C8: from the empty store, \<^verbatim>\<open>InitLedger\<close> succeeds and \<^verbatim>\<open>GetAllAssets\<close> then returns
  six records, in the order of their keys; as a multiset they are the six literal records
  \<^verbatim>\<open>InitLedger\<close> writes, no more and no fewer.
\<close>

theorem GetAllAssets_after_InitLedger:
  "case submit InitLedger [] of
     (w, r) \<Rightarrow>
       r = Inr () \<and>
       GetAllAssets (begin_tx w) =
         Inr [\<lparr>ID = ''exp'', Owner = ''distrib'', Amount = 5\<rparr>,
              \<lparr>ID = ''exp'', Owner = ''team1'', Amount = 6\<rparr>,
              \<lparr>ID = ''exp'', Owner = ''team2'', Amount = 30\<rparr>,
              \<lparr>ID = ''gem'', Owner = ''seo'', Amount = 3000\<rparr>,
              \<lparr>ID = ''gem'', Owner = ''team1'', Amount = 3\<rparr>,
              \<lparr>ID = ''gem'', Owner = ''team2'', Amount = 15\<rparr>] \<and>
       map_sum id mset (GetAllAssets (begin_tx w)) = Inr (mset initial_assets)"
proof -
  have scan: "GetAllAssets (begin_tx (fst (submit InitLedger []))) =
         Inr [\<lparr>ID = ''exp'', Owner = ''distrib'', Amount = 5\<rparr>,
              \<lparr>ID = ''exp'', Owner = ''team1'', Amount = 6\<rparr>,
              \<lparr>ID = ''exp'', Owner = ''team2'', Amount = 30\<rparr>,
              \<lparr>ID = ''gem'', Owner = ''seo'', Amount = 3000\<rparr>,
              \<lparr>ID = ''gem'', Owner = ''team1'', Amount = 3\<rparr>,
              \<lparr>ID = ''gem'', Owner = ''team2'', Amount = 15\<rparr>]"
    by (simp add: InitLedger_submit GetAllAssets_def GetStateByPartialCompositeKey_def
        CreateCompositeKey_def validate_simps compositeKeyNamespace_def begin_tx_def
        GetAllAssets_loop_eq)
  have same: "mset [\<lparr>ID = ''exp'', Owner = ''distrib'', Amount = 5\<rparr>,
              \<lparr>ID = ''exp'', Owner = ''team1'', Amount = 6\<rparr>,
              \<lparr>ID = ''exp'', Owner = ''team2'', Amount = 30\<rparr>,
              \<lparr>ID = ''gem'', Owner = ''seo'', Amount = 3000\<rparr>,
              \<lparr>ID = ''gem'', Owner = ''team1'', Amount = 3\<rparr>,
              \<lparr>ID = ''gem'', Owner = ''team2'', Amount = 15 :: 64 word\<rparr>] = mset initial_assets"
    by (simp add: initial_assets_def)
  show ?thesis
    using scan same by (simp add: InitLedger_submit)
qed

text \<open>
  C9: a transfer of \<open>n\<close> from an owner to the same owner, with \<open>0 < n\<close> and \<open>n\<close> at most
  the balance \<open>m\<close>, succeeds. Source and destination are the same key and the debited
  source record is written last: the record is left with \<open>m - n\<close>, and the supply of the
  kind has gone down by \<open>n\<close>.
\<close>

theorem TransferAsset_self:
  assumes "record_at w kind a = Some src" and "0 < sint n" and "sint n \<le> sint (Amount src)"
  shows "case submit (\<lambda>st. TransferAsset st kind a a n) w of
           (w', r) \<Rightarrow>
             r = Inr (Owner src) \<and>
             record_at w' kind a = Some (src\<lparr>Amount := Amount src - n\<rparr>) \<and>
             balance w' kind a = sint (Amount src) - sint n \<and>
             total_supply w' kind = total_supply w kind - sint n"
proof -
  from record_atD [OF assms(1)] obtain key
    where key: "CreateCompositeKey ''Asset'' [kind, a] = Inr key"
      and src: "map_of w key = Some (JSON src)"
    by blast
  let ?src' = "src\<lparr>Amount := Amount src - n\<rparr>"
  let ?w' = "AList.update key (JSON ?src') w"
  have enough: "\<not> Amount src <s n"
    using assms(3) by (simp add: word_sless_alt)
  have run: "submit (\<lambda>st. TransferAsset st kind a a n) w = (?w', Inr (Owner src))"
    using TransferAsset_submit [OF key src enough key] by simp
  have debit: "sint (Amount src - n) = sint (Amount src) - sint n"
    using assms(2,3) by (simp add: sint_debit)
  have rec: "record_at ?w' kind a = Some ?src'"
    by (simp add: record_at_eq key map_of_update)
  have bal: "balance ?w' kind a = sint (Amount src) - sint n"
    by (simp add: balance_def rec debit)
  have sup: "total_supply ?w' kind = total_supply w kind - sint n"
    by (simp add: total_supply_update kind_keyI [OF key] src debit)
  show ?thesis by (simp add: run rec bal sup)
qed

theorem TransferAsset_self_witness:
  "record_at genesis ''gem'' ''seo'' = Some \<lparr>ID = ''gem'', Owner = ''seo'', Amount = 3000\<rparr> \<and>
   0 < sint (10 :: 64 word) \<and> sint (10 :: 64 word) \<le> sint (3000 :: 64 word) \<and>
   (case submit (\<lambda>st. TransferAsset st ''gem'' ''seo'' ''seo'' 10) genesis of
      (w', r) \<Rightarrow>
        r = Inr ''seo'' \<and>
        record_at w' ''gem'' ''seo'' = Some \<lparr>ID = ''gem'', Owner = ''seo'', Amount = 2990\<rparr> \<and>
        balance w' ''gem'' ''seo'' = 2990 \<and>
        total_supply w' ''gem'' = total_supply genesis ''gem'' - 10)"
proof -
  have pos: "0 < sint (10 :: 64 word)" by simp
  have le: "sint (10 :: 64 word) \<le> sint (Amount \<lparr>ID = ''gem'', Owner = ''seo'', Amount = 3000\<rparr>)"
    by simp
  from TransferAsset_self [OF genesis_gem_seo pos le] genesis_gem_seo
  show ?thesis by (simp split: prod.splits)
qed

text \<open>
  C10, amended: when \<^verbatim>\<open>TransferGemToDistrib\<close> is called for the collector \<^verbatim>\<open>"Distrib"\<close>
  itself, whose gem record holds \<open>m\<close>, with \<open>0 < n \<le> m\<close> and \<open>m + n\<close> no larger than the
  largest \<^verbatim>\<open>int\<close>, the user's gem key and the collector's gem key are one key. Both
  records were read before either write, and the collector's credit is written last: the
  call succeeds, the record ends at \<open>m + n\<close> and the gem supply has gone up by \<open>n\<close>.
\<close>

theorem TransferGemToDistrib_collector:
  assumes rec: "record_at w ''gem'' ''Distrib'' = Some d"
    and pos: "0 < sint n" and enough: "sint n \<le> sint (Amount d)"
    and room: "sint (Amount d) + sint n < 2 ^ 63"
  shows "case submit (\<lambda>st. TransferGemToDistrib st ''Distrib'' n) w of
           (w', r) \<Rightarrow>
             r = Inr () \<and>
             record_at w' ''gem'' ''Distrib'' = Some (d\<lparr>Amount := Amount d + n\<rparr>) \<and>
             balance w' ''gem'' ''Distrib'' = sint (Amount d) + sint n \<and>
             total_supply w' ''gem'' = total_supply w ''gem'' + sint n"
proof -
  from record_atD [OF rec] obtain kD
    where kD: "CreateCompositeKey ''Asset'' [''gem'', ''Distrib''] = Inr kD"
      and d: "map_of w kD = Some (JSON d)"
    by blast
  obtain kE where kE: "CreateCompositeKey ''Asset'' [''exp'', ''Distrib''] = Inr kE"
    by (simp add: CreateCompositeKey_pair validate_literals)
  define e0 where "e0 = stored_or w kE \<lparr>ID = ''exp'', Owner = ''Distrib'', Amount = 0\<rparr>"
  define d' where "d' = d\<lparr>Amount := Amount d + n\<rparr>"
  define e' where "e' = e0\<lparr>Amount := Amount e0 + n\<rparr>"
  define w2 where "w2 = AList.update kD (JSON d') w"
  define w3 where "w3 = AList.update kE (JSON e') w2"
  have d0: "d = stored_or w kD \<lparr>ID = ''gem'', Owner = ''Distrib'', Amount = 0\<rparr>"
    by (simp add: stored_or_def d)
  have "submit (\<lambda>st. TransferGemToDistrib st ''Distrib'' n) w =
      (AList.update kE (JSON e')
         (AList.update kD (JSON d') (AList.update kD (JSON (d\<lparr>Amount := Amount d - n\<rparr>)) w)),
       Inr ())"
    unfolding e'_def d'_def
    by (rule TransferGemToDistrib_submit [OF kD d pos enough kD kE d0 e0_def])
  then have run: "submit (\<lambda>st. TransferGemToDistrib st ''Distrib'' n) w = (w3, Inr ())"
    by (simp add: w3_def w2_def)
  have gem_exp: "''gem'' \<noteq> ''exp''" by simp
  have DE: "kD \<noteq> kE" by (rule keys_differ_kind(1) [OF kD kE gem_exp])
  have gD: "kind_key ''gem'' kD" by (rule kind_keyI [OF kD])
  have gE: "\<not> kind_key ''gem'' kE" by (rule keys_differ_kind(2) [OF kD kE gem_exp])
  have "sint (Amount d + n) = sint (Amount d) + sint n"
    using room pos sint_bounds64 [of "Amount d"] by (intro sint_add_exact) linarith+
  then have sd: "sint (Amount d') = sint (Amount d) + sint n"
    by (simp add: d'_def)
  have m3D: "map_of w3 kD = Some (JSON d')"
    using DE by (simp add: w3_def w2_def map_of_update)
  have r3: "record_at w3 ''gem'' ''Distrib'' = Some d'"
    by (simp add: record_at_eq kD m3D)
  have b: "balance w3 ''gem'' ''Distrib'' = sint (Amount d) + sint n"
    by (simp add: balance_stored [OF kD m3D] sd)
  have g2: "total_supply w2 ''gem'' = total_supply w ''gem'' + sint n"
    by (simp add: w2_def total_supply_update gD d sd)
  have g3: "total_supply w3 ''gem'' = total_supply w2 ''gem''"
    by (simp add: w3_def total_supply_update gE)
  show ?thesis
    by (simp add: run r3 b g2 g3 d'_def)
qed

theorem TransferGemToDistrib_collector_witness:
  "record_at (seed [] ''gem'' ''Distrib'' 5) ''gem'' ''Distrib'' =
     Some \<lparr>ID = ''gem'', Owner = ''Distrib'', Amount = 5\<rparr> \<and>
   0 < sint (2 :: 64 word) \<and> sint (2 :: 64 word) \<le> sint (5 :: 64 word) \<and>
   sint (5 :: 64 word) + sint (2 :: 64 word) < 2 ^ 63 \<and>
   (case submit (\<lambda>st. TransferGemToDistrib st ''Distrib'' 2) (seed [] ''gem'' ''Distrib'' 5) of
      (w', r) \<Rightarrow>
        r = Inr () \<and>
        record_at w' ''gem'' ''Distrib'' = Some \<lparr>ID = ''gem'', Owner = ''Distrib'', Amount = 7\<rparr> \<and>
        balance w' ''gem'' ''Distrib'' = 7 \<and>
        total_supply w' ''gem'' = total_supply (seed [] ''gem'' ''Distrib'' 5) ''gem'' + 2)"
proof -
  have pos: "0 < sint (2 :: 64 word)" by simp
  have le: "sint (2 :: 64 word) \<le> sint (Amount \<lparr>ID = ''gem'', Owner = ''Distrib'', Amount = 5\<rparr>)"
    by simp
  have room: "sint (Amount \<lparr>ID = ''gem'', Owner = ''Distrib'', Amount = 5\<rparr>) + sint (2 :: 64 word) < 2 ^ 63"
    by simp
  from TransferGemToDistrib_collector [OF seed_collector pos le room] seed_collector
  show ?thesis by (simp split: prod.splits)
qed

text \<open>
  C10 as stated fails when \<open>m + n\<close> passes the largest \<^verbatim>\<open>int\<close>: with \<open>m = 2^63 - 1\<close> and
  \<open>n = 1\<close> the addition wraps around and the record ends at \<open>- 2^63\<close>.
\<close>

theorem TransferGemToDistrib_collector_counterexample:
  "record_at (seed [] ''gem'' ''Distrib'' 9223372036854775807) ''gem'' ''Distrib'' =
     Some \<lparr>ID = ''gem'', Owner = ''Distrib'', Amount = 9223372036854775807\<rparr> \<and>
   sint (9223372036854775807 :: 64 word) = 9223372036854775807 \<and>
   sint (1 :: 64 word) = 1 \<and>
   (case submit (\<lambda>st. TransferGemToDistrib st ''Distrib'' 1)
           (seed [] ''gem'' ''Distrib'' 9223372036854775807) of
      (w', r) \<Rightarrow>
        r = Inr () \<and>
        balance w' ''gem'' ''Distrib'' = - 9223372036854775808 \<and>
        balance w' ''gem'' ''Distrib'' \<noteq> 9223372036854775807 + 1 \<and>
        total_supply (seed [] ''gem'' ''Distrib'' 9223372036854775807) ''gem'' = 9223372036854775807 \<and>
        total_supply w' ''gem'' = - 9223372036854775808)"
  by (simp add: eval_simps)

end
